theory Spec2Isabelle
  imports Complex_Main "HOL-Library.Char_ord" "HOL-Library.List_Lexorder"
begin

section \<open>Python values used by the monitoring and storage modules\<close>

text \<open>
  Strings are byte strings in UTF-8, so \<open>s.encode()\<close> is the identity and the
  concatenation of an f-string is list append. Floats are idealised as reals (exact
  arithmetic); where numpy's float division leaves the finite numbers, the result is a
  value of \<open>npfloat\<close>.
\<close>

datatype error =
    TypeError
  | ValueError
  | KeyError string
  | AttributeError string
  | OverflowError
  | InvalidToken
  | LinAlgError
  | ConnectionClosed
  | OtherError string

subsection \<open>datetime\<close>

text \<open>
  A \<open>datetime\<close>. It is naive when \<open>tzinfo\<close> is \<open>None\<close>, as every reading of
  \<open>datetime.now()\<close> is, and aware otherwise, with the UTC offset of its fixed-offset
  timezone in microseconds: \<open>datetime.fromisoformat\<close> returns an aware datetime for a
  text that ends in an offset.
\<close>

record datetime =
  year :: nat
  month :: nat
  day :: nat
  hour :: nat
  minute :: nat
  second :: nat
  microsecond :: nat
  tzinfo :: "int option"

definition naive :: "datetime \<Rightarrow> bool" where
  "naive d = (tzinfo d = None)"

definition utcoffset :: "datetime \<Rightarrow> int" where
  "utcoffset d = (case tzinfo d of None \<Rightarrow> 0 | Some off \<Rightarrow> off)"

definition digit_char :: "nat \<Rightarrow> char" where
  "digit_char d = ''0123456789'' ! d"

text \<open>\<open>pad_num w x\<close> is Python's \<open>"%0wd" % x\<close> for \<open>x < 10 ^ w\<close>.\<close>

fun pad_num :: "nat \<Rightarrow> nat \<Rightarrow> string" where
  "pad_num 0 x = []"
| "pad_num (Suc w) x = pad_num w (x div 10) @ [digit_char (x mod 10)]"

definition date_part :: "datetime \<Rightarrow> string" where
  "date_part d = pad_num 4 (year d) @ ''-'' @ pad_num 2 (month d) @ ''-'' @ pad_num 2 (day d)"

definition time_part :: "datetime \<Rightarrow> string" where
  "time_part d =
     pad_num 2 (hour d) @ '':'' @ pad_num 2 (minute d) @ '':'' @ pad_num 2 (second d)
     @ (if microsecond d \<noteq> 0 then ''.'' @ pad_num 6 (microsecond d) else [])"

text \<open>The offset as \<open>isoformat\<close> appends it: sign, hours and minutes, then the seconds
  and the microseconds where they are not zero; nothing for a naive datetime.\<close>

definition format_offset :: "int option \<Rightarrow> string" where
  "format_offset tz =
     (case tz of
        None \<Rightarrow> []
      | Some off \<Rightarrow>
          (let a = nat \<bar>off\<bar>;
               hh = a div 3600000000;
               mm = (a mod 3600000000) div 60000000;
               ss = a mod 60000000
           in (if off < 0 then ''-'' else ''+'') @ pad_num 2 hh @ '':'' @ pad_num 2 mm
              @ (if ss \<noteq> 0
                 then '':'' @ pad_num 2 (ss div 1000000)
                      @ (if ss mod 1000000 \<noteq> 0 then ''.'' @ pad_num 6 (ss mod 1000000) else [])
                 else [])))"

text \<open>\<open>datetime.isoformat(sep)\<close>; \<open>isoformat()\<close> uses the separator \<open>T\<close> and
  \<open>str(d)\<close>, which an f-string \<open>f"{d}"\<close> calls, is \<open>d.isoformat(sep=' ')\<close>.\<close>

definition isoformat_sep :: "char \<Rightarrow> datetime \<Rightarrow> string" where
  "isoformat_sep sep d = date_part d @ [sep] @ time_part d @ format_offset (tzinfo d)"

definition isoformat :: "datetime \<Rightarrow> string" where
  "isoformat d = isoformat_sep CHR ''T'' d"

definition dt_str :: "datetime \<Rightarrow> string" where
  "dt_str d = isoformat_sep CHR '' '' d"

subsection \<open>Library functions taken as parameters\<close>

text \<open>
  \<open>hmac.new(key, msg, hashlib.sha256).hexdigest()\<close>, \<open>str\<close> and \<open>float\<close> on floats,
  \<open>json.dumps\<close>/\<open>json.loads\<close> and \<open>datetime.fromisoformat\<close> belong to the Python
  libraries, not to this repository: the code is modelled over any such functions.
  \<open>None\<close> is the library raising.
\<close>

record 'm pylib =
  hmac_hexdigest :: "string \<Rightarrow> string \<Rightarrow> string"
  float_str :: "real \<Rightarrow> string"
  float_parse :: "string \<Rightarrow> real option"
  json_dumps :: "'m \<Rightarrow> string option"
  json_loads :: "string \<Rightarrow> 'm option"
  fromisoformat :: "string \<Rightarrow> datetime option"

text \<open>A hex digest consists of ASCII characters, whatever the key and the message.\<close>

definition ascii_only :: "string \<Rightarrow> bool" where
  "ascii_only s = list_all (\<lambda>c. (of_char c :: nat) < 128) s"

definition hexdigest_ascii :: "'m pylib \<Rightarrow> bool" where
  "hexdigest_ascii L = (\<forall>k m. ascii_only (hmac_hexdigest L k m))"

text \<open>\<open>hmac.compare_digest\<close> on two \<open>str\<close>: TypeError unless both are ASCII.\<close>

definition compare_digest :: "string \<Rightarrow> string \<Rightarrow> error + bool" where
  "compare_digest a b = (if ascii_only a \<and> ascii_only b then Inr (a = b) else Inl TypeError)"

section \<open>monitoring/real\_time\_monitor.py\<close>

subsection \<open>SensorReading\<close>

record SensorReading =
  timestamp :: datetime
  val :: real
  unit :: string
  sensor_id :: string
  checksum :: string
  confidence :: real
  calibration_date :: datetime
  is_validated :: bool

text \<open>\<open>SensorReading.validate\<close>: the result and the reading with its flag assigned.\<close>

definition validate_data :: "'m pylib \<Rightarrow> SensorReading \<Rightarrow> string" where
  "validate_data L r = dt_str (timestamp r) @ float_str L (val r) @ unit r @ sensor_id r"

definition validate :: "'m pylib \<Rightarrow> string \<Rightarrow> SensorReading \<Rightarrow> error + bool \<times> SensorReading" where
  "validate L key r =
     (let data = validate_data L r;
          expected_hash = hmac_hexdigest L key data
      in case compare_digest expected_hash (checksum r) of
           Inl e \<Rightarrow> Inl e
         | Inr b \<Rightarrow> Inr (b, r\<lparr>is_validated := b\<rparr>))"

text \<open>\<open>validate\<close> returned \<open>True\<close>.\<close>

definition validate_true :: "'m pylib \<Rightarrow> string \<Rightarrow> SensorReading \<Rightarrow> bool" where
  "validate_true L key r = (case validate L key r of Inl e \<Rightarrow> False | Inr (b, r') \<Rightarrow> b)"


subsection \<open>Time arithmetic\<close>

text \<open>
  A \<open>timedelta\<close> is its number of microseconds; Python keeps it normalised as days,
  seconds in \<open>[0, 86400)\<close> and microseconds in \<open>[0, 10^6)\<close>. The fields of a datetime
  give the number of microseconds since \<open>datetime.min\<close> (0001-01-01), from the proleptic
  Gregorian ordinal as \<open>datetime.toordinal\<close> computes it; less the UTC offset, this is
  the point in time that comparison and subtraction of two naive or of two aware
  datetimes use. Between a naive and an aware datetime both raise TypeError.
\<close>

definition is_leap :: "nat \<Rightarrow> bool" where
  "is_leap y = (y mod 4 = 0 \<and> (y mod 100 \<noteq> 0 \<or> y mod 400 = 0))"

definition days_before_year :: "nat \<Rightarrow> int" where
  "days_before_year y =
     (let y1 = int y - 1 in y1 * 365 + y1 div 4 - y1 div 100 + y1 div 400)"

definition days_in_month :: "nat list" where
  "days_in_month = [31, 28, 31, 30, 31, 30, 31, 31, 30, 31, 30, 31]"

definition days_before_month :: "nat \<Rightarrow> nat \<Rightarrow> int" where
  "days_before_month y m =
     int (sum_list (take (m - 1) days_in_month)) + (if m > 2 \<and> is_leap y then 1 else 0)"

definition toordinal :: "datetime \<Rightarrow> int" where
  "toordinal d = days_before_year (year d) + days_before_month (year d) (month d) + int (day d)"

definition wall_micros :: "datetime \<Rightarrow> int" where
  "wall_micros d =
     (((toordinal d - 1) * 86400 + int (hour d) * 3600 + int (minute d) * 60 + int (second d))
        * 1000000 + int (microsecond d))"

definition dt_micros :: "datetime \<Rightarrow> int" where
  "dt_micros d = wall_micros d - utcoffset d"

text \<open>The time from \<open>b\<close> to \<open>a\<close>, and \<open>a - b\<close> on two datetimes: this timedelta, or
  TypeError when one is naive and the other aware.\<close>

definition dt_diff :: "datetime \<Rightarrow> datetime \<Rightarrow> int" where
  "dt_diff a b = dt_micros a - dt_micros b"

definition dt_sub :: "datetime \<Rightarrow> datetime \<Rightarrow> error + int" where
  "dt_sub a b = (if naive a \<noteq> naive b then Inl TypeError else Inr (dt_diff a b))"

text \<open>\<open>timedelta.seconds\<close>: the seconds field of the normalised value, not the total.\<close>

definition td_seconds :: "int \<Rightarrow> int" where
  "td_seconds td = (td div 1000000) mod 86400"

definition td_total_seconds :: "int \<Rightarrow> real" where
  "td_total_seconds td = real_of_int td / 1000000"

text \<open>\<open>timedelta(seconds=s)\<close> and \<open>timedelta(days=n)\<close>: OverflowError beyond 999999999 days.\<close>

definition timedelta_of_seconds :: "int \<Rightarrow> error + int" where
  "timedelta_of_seconds s =
     (if - 999999999 \<le> s div 86400 \<and> s div 86400 \<le> 999999999
      then Inr (s * 1000000) else Inl OverflowError)"

definition timedelta_days :: "int \<Rightarrow> int" where
  "timedelta_days n = n * 86400 * 1000000"

text \<open>One past \<open>datetime.max\<close> (9999-12-31 23:59:59.999999), in microseconds.\<close>

definition dt_limit :: int where
  "dt_limit = 3652059 * 86400 * 1000000"

text \<open>\<open>d - td\<close>: the point in time of the resulting datetime, which has the tzinfo of
  \<open>d\<close>; OverflowError when its fields leave the datetime range.\<close>

definition dt_minus :: "datetime \<Rightarrow> int \<Rightarrow> error + int" where
  "dt_minus d td =
     (let m = wall_micros d - td
      in if 0 \<le> m \<and> m < dt_limit then Inr (m - utcoffset d) else Inl OverflowError)"

text \<open>\<open>t > cutoff\<close>, for a cutoff computed from the clock reading \<open>now\<close>.\<close>

definition later_than :: "datetime \<Rightarrow> datetime \<Rightarrow> int \<Rightarrow> error + bool" where
  "later_than t now cutoff =
     (if naive t \<noteq> naive now then Inl TypeError else Inr (dt_micros t > cutoff))"

subsection \<open>RealTimeBuffer\<close>

text \<open>\<open>collections.deque\<close> with \<open>maxlen\<close>: append on the right, then drop from the left
  while the length exceeds \<open>maxlen\<close>.\<close>

definition deque_append :: "nat \<Rightarrow> 'a list \<Rightarrow> 'a \<Rightarrow> 'a list" where
  "deque_append n xs x = (let ys = xs @ [x] in if length ys > n then tl ys else ys)"

definition deque_of :: "nat \<Rightarrow> 'a list \<Rightarrow> 'a list" where
  "deque_of n xs = foldl (deque_append n) [] xs"

record RealTimeBuffer =
  buffer :: "SensorReading list"
  maxlen :: nat
  cleanup_interval :: int
  last_cleanup :: datetime

text \<open>\<open>RealTimeBuffer.__init__\<close>; \<open>deque(maxlen=n)\<close> raises ValueError for negative \<open>n\<close>.
  The last argument is the reading of \<open>datetime.now()\<close>.\<close>

definition new_RealTimeBuffer :: "int \<Rightarrow> int \<Rightarrow> datetime \<Rightarrow> error + RealTimeBuffer" where
  "new_RealTimeBuffer max_size interval now =
     (if max_size < 0 then Inl ValueError
      else Inr \<lparr>buffer = [], maxlen = nat max_size, cleanup_interval = interval,
                last_cleanup = now\<rparr>)"

text \<open>The comprehension \<open>r for r in self.buffer if r.timestamp > cutoff\<close>: the readings
  newer than the cutoff, in order; the first comparison that raises ends it.\<close>

fun newer_than :: "datetime \<Rightarrow> int \<Rightarrow> SensorReading list \<Rightarrow> error + SensorReading list" where
  "newer_than now cutoff [] = Inr []"
| "newer_than now cutoff (r # rs) =
     (case later_than (timestamp r) now cutoff of
        Inl e \<Rightarrow> Inl e
      | Inr keep \<Rightarrow>
          (case newer_than now cutoff rs of
             Inl e \<Rightarrow> Inl e
           | Inr ys \<Rightarrow> Inr (if keep then r # ys else ys)))"

text \<open>\<open>RealTimeBuffer._cleanup_if_needed\<close>. The three clock readings are those of the
  three calls of \<open>datetime.now()\<close>, in order. The result is the exception raised, if any,
  and the buffer object as the call leaves it: when the comprehension raises, the timer
  has been assigned and the deque has not.\<close>

definition cleanup_if_needed ::
  "RealTimeBuffer \<Rightarrow> datetime \<Rightarrow> datetime \<Rightarrow> datetime \<Rightarrow> error option \<times> RealTimeBuffer" where
  "cleanup_if_needed b now1 now2 now3 =
     (case dt_sub now1 (last_cleanup b) of
        Inl e \<Rightarrow> (Some e, b)
      | Inr elapsed \<Rightarrow>
          if td_seconds elapsed > cleanup_interval b then
            (let b1 = b\<lparr>last_cleanup := now2\<rparr> in
             case dt_minus now3 (timedelta_days 7) of
               Inl e \<Rightarrow> (Some e, b1)
             | Inr cutoff \<Rightarrow>
                 (case newer_than now3 cutoff (buffer b1) of
                    Inl e \<Rightarrow> (Some e, b1)
                  | Inr kept \<Rightarrow> (None, b1\<lparr>buffer := deque_of (maxlen b1) kept\<rparr>)))
          else (None, b))"

text \<open>\<open>RealTimeBuffer.add\<close>\<close>

definition add ::
  "RealTimeBuffer \<Rightarrow> SensorReading \<Rightarrow> datetime \<Rightarrow> datetime \<Rightarrow> datetime
     \<Rightarrow> error option \<times> RealTimeBuffer" where
  "add b reading now1 now2 now3 =
     cleanup_if_needed (b\<lparr>buffer := deque_append (maxlen b) (buffer b) reading\<rparr>) now1 now2 now3"

text \<open>A sequence of \<open>add\<close> calls on one buffer, each with its reading and its clock
  readings; the caller (the monitoring loop) goes on after an exception.\<close>

fun add_all ::
  "RealTimeBuffer \<Rightarrow> (SensorReading \<times> datetime \<times> datetime \<times> datetime) list \<Rightarrow> RealTimeBuffer" where
  "add_all b [] = b"
| "add_all b ((r, n1, n2, n3) # cs) = add_all (snd (add b r n1 n2 n3)) cs"

text \<open>\<open>RealTimeBuffer.get_recent\<close>\<close>

definition get_recent :: "RealTimeBuffer \<Rightarrow> int \<Rightarrow> datetime \<Rightarrow> error + SensorReading list" where
  "get_recent b seconds now =
     (case timedelta_of_seconds seconds of
        Inl e \<Rightarrow> Inl e
      | Inr td \<Rightarrow>
          (case dt_minus now td of
             Inl e \<Rightarrow> Inl e
           | Inr cutoff \<Rightarrow> newer_than now cutoff (buffer b)))"

subsection \<open>numpy on lists of floats\<close>

datatype npfloat = Finite real | PosInf | NegInf | NaN

text \<open>Division of two finite \<open>numpy.float64\<close>: by zero it warns and gives an infinity or,
  for \<open>0 / 0\<close>, nan; nothing is raised. (The sign of a zero is not modelled.)\<close>

definition np_div :: "real \<Rightarrow> real \<Rightarrow> npfloat" where
  "np_div x y =
     (if y \<noteq> 0 then Finite (x / y)
      else if x = 0 then NaN else if x > 0 then PosInf else NegInf)"

text \<open>\<open>x < c\<close> for a finite constant \<open>c\<close>: every comparison with nan is false.\<close>

definition np_less :: "npfloat \<Rightarrow> real \<Rightarrow> bool" where
  "np_less x c = (case x of Finite r \<Rightarrow> r < c | NegInf \<Rightarrow> True | PosInf \<Rightarrow> False | NaN \<Rightarrow> False)"

definition np_mean :: "real list \<Rightarrow> real" where
  "np_mean xs = sum_list xs / real (length xs)"

definition np_std :: "real list \<Rightarrow> real" where
  "np_std xs = sqrt (np_mean (map (\<lambda>x. (x - np_mean xs)\<^sup>2) xs))"

definition np_min :: "real list \<Rightarrow> real" where
  "np_min xs = foldl min (hd xs) (tl xs)"

definition np_max :: "real list \<Rightarrow> real" where
  "np_max xs = foldl max (hd xs) (tl xs)"

definition np_median :: "real list \<Rightarrow> real" where
  "np_median xs =
     (let s = sort xs; n = length s
      in if even n then (s ! (n div 2 - 1) + s ! (n div 2)) / 2 else s ! (n div 2))"

text \<open>The slope \<open>numpy.polyfit(ts, vs, 1)[0]\<close> of the least-squares line, in exact
  arithmetic. When all times are equal, numpy divides the column of times by its norm,
  which is zero, and the least-squares solver fails on the resulting matrix.\<close>

definition sum_sq_dev :: "real list \<Rightarrow> real" where
  "sum_sq_dev xs = sum_list (map (\<lambda>x. (x - np_mean xs)\<^sup>2) xs)"

definition sum_co_dev :: "real list \<Rightarrow> real list \<Rightarrow> real" where
  "sum_co_dev xs ys = sum_list (map2 (\<lambda>x y. (x - np_mean xs) * (y - np_mean ys)) xs ys)"

definition polyfit_slope :: "real list \<Rightarrow> real list \<Rightarrow> error + real" where
  "polyfit_slope ts vs =
     (if sum_sq_dev ts = 0 then Inl LinAlgError else Inr (sum_co_dev ts vs / sum_sq_dev ts))"

text \<open>\<open>numpy.corrcoef(ts, vs)[0, 1] ** 2\<close>, in exact arithmetic.\<close>

definition corrcoef_squared :: "real list \<Rightarrow> real list \<Rightarrow> npfloat" where
  "corrcoef_squared ts vs = np_div ((sum_co_dev ts vs)\<^sup>2) (sum_sq_dev ts * sum_sq_dev vs)"

subsection \<open>RealTimeMonitor\<close>

type_synonym alert = "(string \<times> string) list"

datatype action =
    LogWarning string
  | LogError string
  | LogCritical string
  | Sleep nat
  | Connect
  | ImmediateAlert alert
  | QueuedAlert alert

text \<open>
  What the peer and the other coroutines do while the loop awaits \<open>recv()\<close>: a frame
  arrives, given by what decrypting, \<open>json.loads\<close> and \<open>_parse_reading\<close> make of it (a
  reading or the exception raised) and by the clock at that moment; the connection
  drops; or \<open>stop()\<close> is called. A closed websocket raises ConnectionClosed on \<open>recv()\<close>.
\<close>

datatype net_event = Frame "error + SensorReading" datetime | Drop | StopCall

record websocket =
  ws_closed :: bool
  ws_feed :: "net_event list"

text \<open>\<open>__init__\<close> assigns \<open>encryption\<close>, \<open>secret_key\<close>, \<open>buffers\<close>, \<open>alert_callbacks\<close>,
  \<open>executor\<close>, \<open>is_running\<close> and \<open>websocket\<close>. The attributes \<open>last_cleanup\<close> and
  \<open>start_time\<close>, which \<open>get_health_check\<close> reads, are \<open>None\<close> here while no assignment has
  created them.\<close>

record RealTimeMonitor =
  encryption :: string
  secret_key :: string
  buffers :: "string \<rightharpoonup> RealTimeBuffer"
  alert_callbacks :: "(SensorReading \<Rightarrow> error + alert option) list"
  is_running :: bool
  websocket :: "websocket option"
  mon_last_cleanup :: "datetime option"
  mon_start_time :: "datetime option"

definition new_RealTimeMonitor :: "string \<Rightarrow> string \<Rightarrow> RealTimeMonitor" where
  "new_RealTimeMonitor encryption_key secret =
     \<lparr>encryption = encryption_key, secret_key = secret, buffers = Map.empty,
      alert_callbacks = [], is_running = False, websocket = None,
      mon_last_cleanup = None, mon_start_time = None\<rparr>"

text \<open>\<open>RealTimeMonitor.stop\<close>\<close>

definition stop :: "RealTimeMonitor \<Rightarrow> RealTimeMonitor" where
  "stop M =
     M\<lparr>is_running := False,
       websocket := map_option (\<lambda>ws. ws\<lparr>ws_closed := True\<rparr>) (websocket M)\<rparr>"

text \<open>\<open>RealTimeMonitor.add_alert_callback\<close>\<close>

definition add_alert_callback ::
  "RealTimeMonitor \<Rightarrow> (SensorReading \<Rightarrow> error + alert option) \<Rightarrow> RealTimeMonitor" where
  "add_alert_callback M callback = M\<lparr>alert_callbacks := alert_callbacks M @ [callback]\<rparr>"

text \<open>\<open>RealTimeMonitor._process_reading\<close>; \<open>RealTimeBuffer()\<close> has the defaults 1000 and
  3600. One clock reading stands for those taken during the call.\<close>

definition process_reading ::
  "RealTimeMonitor \<Rightarrow> SensorReading \<Rightarrow> datetime \<Rightarrow> error option \<times> RealTimeMonitor" where
  "process_reading M reading now =
     (let b = (case buffers M (sensor_id reading) of
                 None \<Rightarrow> \<lparr>buffer = [], maxlen = 1000, cleanup_interval = 3600, last_cleanup = now\<rparr>
               | Some b \<Rightarrow> b);
          (e, b') = add b reading now now now
      in (e, M\<lparr>buffers := (buffers M)(sensor_id reading \<mapsto> b')\<rparr>))"

text \<open>\<open>RealTimeMonitor._handle_alert\<close>\<close>

definition handle_alert :: "alert \<Rightarrow> action list" where
  "handle_alert alert_data =
     (case map_of alert_data ''severity'' of
        None \<Rightarrow> [LogError ''Error handling alert'']
      | Some s \<Rightarrow> if s = ''critical'' then [ImmediateAlert alert_data] else [QueuedAlert alert_data])"

text \<open>\<open>RealTimeMonitor._check_alerts\<close>: a callback that raises is logged and counts as
  \<open>None\<close>; an empty dict is false as well.\<close>

definition check_alerts :: "RealTimeMonitor \<Rightarrow> SensorReading \<Rightarrow> action list" where
  "check_alerts M reading =
     concat (map (\<lambda>callback.
        case callback reading of
          Inl e \<Rightarrow> [LogError ''Error in alert callback'']
        | Inr None \<Rightarrow> []
        | Inr (Some a) \<Rightarrow> if a = [] then [] else handle_alert a) (alert_callbacks M))"

text \<open>The two \<open>except\<close> branches of the loop.\<close>

definition on_connection_closed :: "action list" where
  "on_connection_closed = [LogError ''Connection lost. Attempting to reconnect...'', Sleep 5]"

definition on_exception :: "action list" where
  "on_exception = [LogError ''Error in monitoring loop'', Sleep 1]"

text \<open>One pass through the body of \<open>while self.is_running\<close> in \<open>_monitor_loop\<close>, for a
  websocket that is closed or has an event waiting.\<close>

definition loop_body ::
  "'m pylib \<Rightarrow> RealTimeMonitor \<Rightarrow> RealTimeMonitor \<times> action list" where
  "loop_body L M =
     (case websocket M of
        None \<Rightarrow> (M, on_exception)
      | Some ws \<Rightarrow>
          if ws_closed ws then (M, on_connection_closed)
          else (case ws_feed ws of
             [] \<Rightarrow> (M, [])
           | Drop # feed \<Rightarrow>
               (M\<lparr>websocket := Some (ws\<lparr>ws_closed := True, ws_feed := feed\<rparr>)\<rparr>,
                on_connection_closed)
           | StopCall # feed \<Rightarrow>
               (stop (M\<lparr>websocket := Some (ws\<lparr>ws_feed := feed\<rparr>)\<rparr>), on_connection_closed)
           | Frame decoded now # feed \<Rightarrow>
               (let M1 = M\<lparr>websocket := Some (ws\<lparr>ws_feed := feed\<rparr>)\<rparr> in
                case decoded of
                  Inl e \<Rightarrow> (M1, on_exception)
                | Inr reading \<Rightarrow>
                    (case validate L (secret_key M1) reading of
                       Inl e \<Rightarrow> (M1, on_exception)
                     | Inr (ok, reading') \<Rightarrow>
                         if \<not> ok then
                           (M1, [LogWarning (''Invalid reading from sensor '' @ sensor_id reading')])
                         else (case process_reading M1 reading' now of
                                 (Some e, M2) \<Rightarrow> (M2, on_exception)
                               | (None, M2) \<Rightarrow> (M2, check_alerts M2 reading'))))))"

text \<open>The loop blocks in \<open>recv()\<close> while the websocket is open and nothing arrives.\<close>

definition awaiting :: "RealTimeMonitor \<Rightarrow> bool" where
  "awaiting M = (case websocket M of None \<Rightarrow> False | Some ws \<Rightarrow> \<not> ws_closed ws \<and> ws_feed ws = [])"

text \<open>\<open>RealTimeMonitor._monitor_loop\<close>, for at most the given number of passes; the trace
  lists what the passes did, in order.\<close>

fun monitor_loop ::
  "'m pylib \<Rightarrow> nat \<Rightarrow> RealTimeMonitor \<times> action list \<Rightarrow> RealTimeMonitor \<times> action list" where
  "monitor_loop L 0 (M, tr) = (M, tr)"
| "monitor_loop L (Suc n) (M, tr) =
     (if \<not> is_running M \<or> awaiting M then (M, tr)
      else (case loop_body L M of (M', acts) \<Rightarrow> monitor_loop L n (M', tr @ acts)))"

text \<open>\<open>RealTimeMonitor.start\<close>: \<open>websockets.connect\<close> gives a websocket or raises; the
  exception is logged and raised again.\<close>

definition start ::
  "'m pylib \<Rightarrow> nat \<Rightarrow> RealTimeMonitor \<Rightarrow> error + websocket
     \<Rightarrow> error option \<times> RealTimeMonitor \<times> action list" where
  "start L n M connection =
     (let M1 = M\<lparr>is_running := True\<rparr> in
      case connection of
        Inl e \<Rightarrow> (Some e, M1, [LogError ''Monitoring error''])
      | Inr ws \<Rightarrow>
          (case monitor_loop L n (M1\<lparr>websocket := Some ws\<rparr>, [Connect]) of
             (M2, tr) \<Rightarrow> (None, M2, tr)))"

text \<open>\<open>RealTimeMonitor.get_statistics\<close>; \<open>None\<close> is the empty dict.\<close>

record statistics =
  st_mean :: real
  st_std :: real
  st_min :: real
  st_max :: real
  st_median :: real
  st_count :: nat
  st_confidence :: real

definition get_statistics ::
  "RealTimeMonitor \<Rightarrow> string \<Rightarrow> int \<Rightarrow> datetime \<Rightarrow> error + statistics option" where
  "get_statistics M sid timeframe now =
     (case buffers M sid of
        None \<Rightarrow> Inl (KeyError sid)
      | Some b \<Rightarrow>
          (case get_recent b timeframe now of
             Inl e \<Rightarrow> Inl e
           | Inr readings \<Rightarrow>
               if readings = [] then Inr None
               else (let values = map val readings in
                     Inr (Some \<lparr>st_mean = np_mean values, st_std = np_std values,
                                st_min = np_min values, st_max = np_max values,
                                st_median = np_median values, st_count = length values,
                                st_confidence = np_mean (map confidence readings)\<rparr>))))"

text \<open>The comprehension \<open>(r.timestamp - readings[0].timestamp).total_seconds() for r in
  readings\<close>.\<close>

fun seconds_since :: "datetime \<Rightarrow> SensorReading list \<Rightarrow> error + real list" where
  "seconds_since t0 [] = Inr []"
| "seconds_since t0 (r # rs) =
     (case dt_sub (timestamp r) t0 of
        Inl e \<Rightarrow> Inl e
      | Inr td \<Rightarrow>
          (case seconds_since t0 rs of
             Inl e \<Rightarrow> Inl e
           | Inr ts \<Rightarrow> Inr (td_total_seconds td # ts)))"

text \<open>\<open>RealTimeMonitor.get_trend_analysis\<close>\<close>

record trend_analysis =
  trend :: string
  trend_strength :: npfloat
  slope :: real
  r_squared :: npfloat

definition get_trend_analysis ::
  "RealTimeMonitor \<Rightarrow> string \<Rightarrow> int \<Rightarrow> datetime \<Rightarrow> error + trend_analysis option" where
  "get_trend_analysis M sid timeframe now =
     (case buffers M sid of
        None \<Rightarrow> Inl (KeyError sid)
      | Some b \<Rightarrow>
          (case get_recent b timeframe now of
             Inl e \<Rightarrow> Inl e
           | Inr readings \<Rightarrow>
               if length readings < 2 then Inr None
               else (let values = map val readings in
                     case seconds_since (timestamp (hd readings)) readings of
                       Inl e \<Rightarrow> Inl e
                     | Inr elapsed \<Rightarrow>
                         (case polyfit_slope elapsed values of
                            Inl e \<Rightarrow> Inl e
                          | Inr z0 \<Rightarrow>
                              (let strength = np_div (\<bar>z0\<bar> * real_of_int timeframe)
                                                (np_mean values);
                                   t = (if np_less strength (1 / 10) then ''stable''
                                        else if z0 > 0 then ''increasing'' else ''decreasing'')
                               in Inr (Some \<lparr>trend = t, trend_strength = strength, slope = z0,
                                            r_squared = corrcoef_squared elapsed values\<rparr>))))))"

text \<open>\<open>RealTimeMonitor.get_health_check\<close>: the dict display is evaluated in order, and
  reading an attribute that no assignment created raises AttributeError. The uptime is
  the timedelta of which the dict holds the \<open>str\<close>.\<close>

record health_check =
  hc_status :: string
  hc_last_cleanup :: string
  hc_buffer_sizes :: "string \<rightharpoonup> nat"
  hc_uptime :: int

definition get_health_check :: "RealTimeMonitor \<Rightarrow> datetime \<Rightarrow> error + health_check" where
  "get_health_check M now =
     (let status = (if is_running M then ''healthy'' else ''stopped'') in
      case mon_last_cleanup M of
        None \<Rightarrow> Inl (AttributeError ''last_cleanup'')
      | Some lc \<Rightarrow>
          (let sizes = (\<lambda>sid. map_option (\<lambda>b. length (buffer b)) (buffers M sid)) in
           case mon_start_time M of
             None \<Rightarrow> Inl (AttributeError ''start_time'')
           | Some st \<Rightarrow>
               (case dt_sub now st of
                  Inl e \<Rightarrow> Inl e
                | Inr up \<Rightarrow>
                    Inr \<lparr>hc_status = status, hc_last_cleanup = isoformat lc,
                         hc_buffer_sizes = sizes, hc_uptime = up\<rparr>)))"

text \<open>The states of a monitor object: constructed, then changed by its methods (with
  the library \<open>L\<close>).\<close>

inductive reachable :: "'m pylib \<Rightarrow> RealTimeMonitor \<Rightarrow> bool" for L :: "'m pylib" where
  r_init: "reachable L (new_RealTimeMonitor encryption_key secret)"
| r_start: "reachable L M \<Longrightarrow> reachable L (fst (snd (start L n M connection)))"
| r_stop: "reachable L M \<Longrightarrow> reachable L (stop M)"
| r_callback: "reachable L M \<Longrightarrow> reachable L (add_alert_callback M callback)"
| r_process: "reachable L M \<Longrightarrow> reachable L (snd (process_reading M reading now))"

section \<open>data\_management/secure\_storage.py\<close>

record 'm DataPoint =
  dp_timestamp :: datetime
  dp_sensor_id :: string
  dp_value :: real
  dp_unit :: string
  dp_metadata :: 'm
  dp_checksum :: string

definition checksum_data :: "'m pylib \<Rightarrow> 'm DataPoint \<Rightarrow> string" where
  "checksum_data L dp =
     dt_str (dp_timestamp dp) @ dp_sensor_id dp @ float_str L (dp_value dp) @ dp_unit dp"

text \<open>\<open>SecureStorage._verify_checksum\<close>\<close>

definition verify_checksum :: "'m pylib \<Rightarrow> string \<Rightarrow> 'm DataPoint \<Rightarrow> error + bool" where
  "verify_checksum L key dp =
     (let data = checksum_data L dp;
          expected_hash = hmac_hexdigest L key data
      in compare_digest expected_hash (dp_checksum dp))"



subsection \<open>Fernet and the table \<open>sensor_data\<close>\<close>

text \<open>
  A Fernet token is modelled symbolically: it opens under the key that sealed it and
  under no other, and bytes that are not a token (a damaged column) open under none.
  \<open>Fernet.decrypt\<close> raises InvalidToken.
\<close>

datatype blob = Token string string | Damaged string

definition fernet_encrypt :: "string \<Rightarrow> string \<Rightarrow> blob" where
  "fernet_encrypt key plain = Token key plain"

definition fernet_decrypt :: "string \<Rightarrow> blob \<Rightarrow> error + string" where
  "fernet_decrypt key b =
     (case b of
        Token k plain \<Rightarrow> if k = key then Inr plain else Inl InvalidToken
      | Damaged _ \<Rightarrow> Inl InvalidToken)"

record row =
  row_timestamp :: string
  row_sensor_id :: string
  encrypted_value :: blob
  row_unit :: string
  encrypted_metadata :: blob
  row_checksum :: string

text \<open>The storage object: the rows of \<open>sensor_data\<close> in insertion order and the two keys.
  Failures of the database itself are not modelled.\<close>

record SecureStorage =
  sensor_data :: "row list"
  st_encryption :: string
  st_secret_key :: string

text \<open>\<open>SecureStorage.store_data_point\<close>: every exception is caught and gives \<open>False\<close>.\<close>

definition store_data_point ::
  "'m pylib \<Rightarrow> SecureStorage \<Rightarrow> 'm DataPoint \<Rightarrow> bool \<times> SecureStorage" where
  "store_data_point L S data_point =
     (case verify_checksum L (st_secret_key S) data_point of
        Inl e \<Rightarrow> (False, S)
      | Inr ok \<Rightarrow>
          if \<not> ok then (False, S)
          else (let enc_value = fernet_encrypt (st_encryption S)
                                  (float_str L (dp_value data_point)) in
                case json_dumps L (dp_metadata data_point) of
                  None \<Rightarrow> (False, S)
                | Some j \<Rightarrow>
                    (let enc_metadata = fernet_encrypt (st_encryption S) j in
                     (True, S\<lparr>sensor_data := sensor_data S @
                        [\<lparr>row_timestamp = isoformat (dp_timestamp data_point),
                          row_sensor_id = dp_sensor_id data_point,
                          encrypted_value = enc_value,
                          row_unit = dp_unit data_point,
                          encrypted_metadata = enc_metadata,
                          row_checksum = dp_checksum data_point\<rparr>]\<rparr>))))"

text \<open>\<open>SecureStorage._decrypt_data_point\<close>: the exception is logged and raised again.\<close>

definition decrypt_data_point :: "'m pylib \<Rightarrow> SecureStorage \<Rightarrow> row \<Rightarrow> error + 'm DataPoint" where
  "decrypt_data_point L S r =
     (case fernet_decrypt (st_encryption S) (encrypted_value r) of
        Inl e \<Rightarrow> Inl e
      | Inr pv \<Rightarrow>
          (case float_parse L pv of
             None \<Rightarrow> Inl ValueError
           | Some v \<Rightarrow>
               (case fernet_decrypt (st_encryption S) (encrypted_metadata r) of
                  Inl e \<Rightarrow> Inl e
                | Inr pm \<Rightarrow>
                    (case json_loads L pm of
                       None \<Rightarrow> Inl ValueError
                     | Some md \<Rightarrow>
                         (case fromisoformat L (row_timestamp r) of
                            None \<Rightarrow> Inl ValueError
                          | Some ts \<Rightarrow>
                              Inr \<lparr>dp_timestamp = ts, dp_sensor_id = row_sensor_id r,
                                   dp_value = v, dp_unit = row_unit r, dp_metadata = md,
                                   dp_checksum = row_checksum r\<rparr>)))))"

text \<open>The list comprehension over the rows: the first exception ends it.\<close>

fun decrypt_rows :: "'m pylib \<Rightarrow> SecureStorage \<Rightarrow> row list \<Rightarrow> error + 'm DataPoint list" where
  "decrypt_rows L S [] = Inr []"
| "decrypt_rows L S (r # rs) =
     (case decrypt_data_point L S r of
        Inl e \<Rightarrow> Inl e
      | Inr dp \<Rightarrow>
          (case decrypt_rows L S rs of Inl e \<Rightarrow> Inl e | Inr dps \<Rightarrow> Inr (dp # dps)))"

text \<open>The query of \<open>get_data_points\<close>: the timestamps are text and compared as text.\<close>

definition select_rows :: "SecureStorage \<Rightarrow> string \<Rightarrow> datetime \<Rightarrow> datetime \<Rightarrow> row list" where
  "select_rows S sid start_time end_time =
     sort_key row_timestamp
       (filter (\<lambda>r. row_sensor_id r = sid \<and> isoformat start_time \<le> row_timestamp r
                    \<and> row_timestamp r \<le> isoformat end_time) (sensor_data S))"

text \<open>\<open>SecureStorage.get_data_points\<close>: \<open>except Exception\<close> logs and returns the empty list.\<close>

definition get_data_points ::
  "'m pylib \<Rightarrow> SecureStorage \<Rightarrow> string \<Rightarrow> datetime \<Rightarrow> datetime \<Rightarrow> error + 'm DataPoint list" where
  "get_data_points L S sid start_time end_time =
     (case decrypt_rows L S (select_rows S sid start_time end_time) of
        Inl e \<Rightarrow> Inr []
      | Inr dps \<Rightarrow> Inr dps)"

text \<open>The loop of \<open>verify_data_integrity\<close> over the rows, with what it logs.\<close>

definition integrity_data :: "row \<Rightarrow> string \<Rightarrow> string" where
  "integrity_data r plain = row_timestamp r @ row_sensor_id r @ plain @ row_unit r"

fun verify_rows :: "'m pylib \<Rightarrow> SecureStorage \<Rightarrow> row list \<Rightarrow> bool \<times> action list" where
  "verify_rows L S [] = (True, [])"
| "verify_rows L S (r # rs) =
     (case fernet_decrypt (st_encryption S) (encrypted_value r) of
        Inl e \<Rightarrow> (False, [LogError ''Error verifying data integrity''])
      | Inr plain \<Rightarrow>
          (let expected_hash = hmac_hexdigest L (st_secret_key S) (integrity_data r plain) in
           case compare_digest expected_hash (row_checksum r) of
             Inl e \<Rightarrow> (False, [LogError ''Error verifying data integrity''])
           | Inr ok \<Rightarrow>
               if \<not> ok
               then (False, [LogError (''Data integrity violation found at '' @ row_timestamp r)])
               else verify_rows L S rs))"

text \<open>A row passes the check of the loop: it decrypts and its tag compares equal.\<close>

definition row_intact :: "'m pylib \<Rightarrow> SecureStorage \<Rightarrow> row \<Rightarrow> bool" where
  "row_intact L S r =
     (case fernet_decrypt (st_encryption S) (encrypted_value r) of
        Inl e \<Rightarrow> False
      | Inr plain \<Rightarrow>
          compare_digest (hmac_hexdigest L (st_secret_key S) (integrity_data r plain))
            (row_checksum r) = Inr True)"

text \<open>\<open>SecureStorage.verify_data_integrity\<close>\<close>

definition verify_data_integrity :: "'m pylib \<Rightarrow> SecureStorage \<Rightarrow> bool \<times> action list" where
  "verify_data_integrity L S = verify_rows L S (sort_key row_timestamp (sensor_data S))"

section \<open>Sample values\<close>

text \<open>
  The library at the points the examples below use: the HMAC-SHA256 hex digests under
  the key \<open>k3y\<close> of five messages, and Python's rendering of the floats 21.5 and 0.0.
  Elsewhere the tables hold a filler.
\<close>

definition sample_hmac :: "string \<Rightarrow> string \<Rightarrow> string" where
  "sample_hmac key msg =
     (if key = ''k3y'' \<and> msg = ''2024-05-01 12:00:0021.5Cs1''
        then ''961cd8fe8469ae4386d1f34a9cde3de7a3fbcd159f3a938f673760062692a724''
      else if key = ''k3y'' \<and> msg = ''2024-05-01 12:00:00s121.5C''
        then ''e698cc31cea0e72044f4359f3545d9a7a6067663efa06cb09c962dcdc6545d40''
      else if key = ''k3y'' \<and> msg = ''2024-05-01T12:00:00s121.5C''
        then ''da9adff24bc8fac46e42d2b73882ba7411cbbe27df0c3333ad98f89b379b4b42''
      else if key = ''k3y'' \<and> msg = ''2024-05-01 12:00:0021.5Cs3''
        then ''cd705c759917f5d1b18bb0a06c52ec47f961ae93a2b8a528d826a92e7b4d121d''
      else if key = ''k3y'' \<and> msg = ''2024-05-01 12:00:0021.5C''
        then ''e1ecbfd78d3c974d363742a1d83a4b812af3c72e6d0d2b537bf40527c471c387''
      else ''0000000000000000000000000000000000000000000000000000000000000000'')"

definition sample_float_str :: "real \<Rightarrow> string" where
  "sample_float_str x = (if x = 43 / 2 then ''21.5'' else ''0.0'')"

definition sample_float_parse :: "string \<Rightarrow> real option" where
  "sample_float_parse s =
     (if s = ''21.5'' then Some (43 / 2) else if s = ''0.0'' then Some 0 else None)"

definition noon :: datetime where
  "noon = \<lparr>year = 2024, month = 5, day = 1, hour = 12, minute = 0, second = 0, microsecond = 0,
      tzinfo = None\<rparr>"

text \<open>Noon as \<open>fromisoformat\<close> returns it for the text \<open>2024-05-01T12:00:00+00:00\<close>.\<close>

definition noon_utc :: datetime where
  "noon_utc = noon\<lparr>tzinfo := Some 0\<rparr>"

definition sample_lib :: "string pylib" where
  "sample_lib =
     \<lparr>hmac_hexdigest = sample_hmac, float_str = sample_float_str,
      float_parse = sample_float_parse, json_dumps = Some, json_loads = Some,
      fromisoformat = (\<lambda>s. if s = ''2024-05-01T12:00:00'' then Some noon else None)\<rparr>"

text \<open>A reading and a data point of sensor \<open>sid\<close> at noon with the value 21.5 C.\<close>

definition sample_reading :: "string \<Rightarrow> string \<Rightarrow> SensorReading" where
  "sample_reading sid tag =
     \<lparr>timestamp = noon, val = 43 / 2, unit = ''C'', sensor_id = sid, checksum = tag,
      confidence = 1, calibration_date = noon, is_validated = False\<rparr>"

definition sample_point :: "string \<Rightarrow> string \<Rightarrow> string DataPoint" where
  "sample_point sid tag =
     \<lparr>dp_timestamp = noon, dp_sensor_id = sid, dp_value = 43 / 2, dp_unit = ''C'',
      dp_metadata = ''{}'', dp_checksum = tag\<rparr>"

text \<open>The tag over timestamp, value, unit, sensor and the tag over timestamp, sensor,
  value, unit, for sensor \<open>s1\<close>; the tag for the empty sensor name.\<close>

definition tag_tvus :: string where
  "tag_tvus = ''961cd8fe8469ae4386d1f34a9cde3de7a3fbcd159f3a938f673760062692a724''"

definition tag_tsvu :: string where
  "tag_tsvu = ''e698cc31cea0e72044f4359f3545d9a7a6067663efa06cb09c962dcdc6545d40''"

definition tag_anonymous :: string where
  "tag_anonymous = ''e1ecbfd78d3c974d363742a1d83a4b812af3c72e6d0d2b537bf40527c471c387''"

definition empty_storage :: SecureStorage where
  "empty_storage = \<lparr>sensor_data = [], st_encryption = ''f3rn3t'', st_secret_key = ''k3y''\<rparr>"

text \<open>A table whose only row has a value column that is no longer a token.\<close>

definition damaged_row :: row where
  "damaged_row =
     \<lparr>row_timestamp = ''2024-05-01T12:00:00'', row_sensor_id = ''s1'',
      encrypted_value = Damaged ''gAAAAA'', row_unit = ''C'',
      encrypted_metadata = Token ''f3rn3t'' ''{}'', row_checksum = tag_tsvu\<rparr>"

definition damaged_storage :: SecureStorage where
  "damaged_storage = empty_storage\<lparr>sensor_data := [damaged_row]\<rparr>"

text \<open>A buffer last cleaned at noon that holds one reading of a month before, and the
  clock a day and ten seconds after noon.\<close>

definition a_month_before :: datetime where
  "a_month_before =
     \<lparr>year = 2024, month = 4, day = 1, hour = 12, minute = 0, second = 0, microsecond = 0,
      tzinfo = None\<rparr>"

definition next_day :: datetime where
  "next_day =
     \<lparr>year = 2024, month = 5, day = 2, hour = 12, minute = 0, second = 10, microsecond = 0,
      tzinfo = None\<rparr>"

definition reading_at :: "datetime \<Rightarrow> real \<Rightarrow> SensorReading" where
  "reading_at t v =
     \<lparr>timestamp = t, val = v, unit = ''C'', sensor_id = ''s1'', checksum = [],
      confidence = 1, calibration_date = noon, is_validated = True\<rparr>"

definition stale_buffer :: RealTimeBuffer where
  "stale_buffer =
     \<lparr>buffer = [reading_at a_month_before 20], maxlen = 1000, cleanup_interval = 3600,
      last_cleanup = noon\<rparr>"

text \<open>A buffer for two readings, and two calls of \<open>add\<close> at noon.\<close>

definition small_buffer :: RealTimeBuffer where
  "small_buffer = \<lparr>buffer = [], maxlen = 2, cleanup_interval = 3600, last_cleanup = noon\<rparr>"

definition two_calls :: "(SensorReading \<times> datetime \<times> datetime \<times> datetime) list" where
  "two_calls = [(reading_at noon 1, noon, noon, noon), (reading_at noon 2, noon, noon, noon)]"

text \<open>A monitor whose buffer of sensor \<open>s1\<close> holds the given readings.\<close>

definition monitor_with :: "SensorReading list \<Rightarrow> RealTimeMonitor" where
  "monitor_with rs =
     (new_RealTimeMonitor ''f3rn3t'' ''k3y'')
       \<lparr>buffers := [''s1'' \<mapsto> \<lparr>buffer = rs, maxlen = 1000, cleanup_interval = 3600,
                                  last_cleanup = noon\<rparr>]\<rparr>"

text \<open>An open websocket on which the connection drops before a frame arrives.\<close>

definition dropping_socket :: websocket where
  "dropping_socket =
     \<lparr>ws_closed = False, ws_feed = [Drop, Frame (Inr (sample_reading ''s1'' tag_tvus)) noon]\<rparr>"

section \<open>Properties\<close>

subsection \<open>Rendering a datetime\<close>

lemma length_pad_num [simp]: "length (pad_num w x) = w"
  by (induction w arbitrary: x) auto

lemma length_date_part [simp]: "length (date_part d) = 10"
  by (simp add: date_part_def)

lemma isoformat_sep_nth: "isoformat_sep c d ! 10 = c"
  by (simp add: isoformat_sep_def nth_append)

text \<open>The two renderings of one datetime differ in their eleventh character.\<close>

lemma isoformat_neq_str: "isoformat d \<noteq> dt_str d"
proof
  assume "isoformat d = dt_str d"
  then have "isoformat d ! 10 = dt_str d ! 10" by simp
  then show False by (simp add: isoformat_def dt_str_def isoformat_sep_nth)
qed

lemma pad_num_numeral:
  "pad_num (numeral k) x = pad_num (pred_numeral k) (x div 10) @ [digit_char (x mod 10)]"
  by (simp only: numeral_eq_Suc [of k] pad_num.simps)

lemma pad_num_one: "pad_num 1 x = [digit_char (x mod 10)]"
  by (simp only: One_nat_def pad_num.simps append_Nil)

lemmas render_defs = isoformat_def dt_str_def isoformat_sep_def date_part_def time_part_def
  format_offset_def digit_char_def pad_num_numeral pad_num_one

lemma dt_str_noon: "dt_str noon = ''2024-05-01 12:00:00''"
  by (simp add: render_defs noon_def)

lemma dt_str_noon_utc: "dt_str noon_utc = ''2024-05-01 12:00:00+00:00''"
  by (simp add: render_defs noon_utc_def noon_def)

lemma isoformat_noon: "isoformat noon = ''2024-05-01T12:00:00''"
  by (simp add: render_defs noon_def)

lemma hexdigest_ascii_sample: "hexdigest_ascii sample_lib"
  by (simp add: hexdigest_ascii_def sample_lib_def sample_hmac_def ascii_only_def)

subsection \<open>The tag of a reading\<close>

lemma compare_digest_true: "compare_digest a b = Inr True \<longleftrightarrow> a = b \<and> ascii_only a"
  by (auto simp: compare_digest_def)


lemma validate_true_iff:
  "validate_true L key r \<longleftrightarrow>
     compare_digest (hmac_hexdigest L key (validate_data L r)) (checksum r) = Inr True"
  by (auto simp: validate_true_def validate_def Let_def split: sum.splits)

lemmas sample_defs = sample_lib_def sample_hmac_def sample_float_str_def sample_reading_def
  sample_point_def tag_tvus_def tag_tsvu_def tag_anonymous_def

lemma validate_data_sample:
  "validate_data sample_lib (sample_reading sid tag) = ''2024-05-01 12:00:0021.5C'' @ sid"
  by (simp add: validate_data_def dt_str_noon sample_defs)

lemma checksum_data_sample:
  "checksum_data sample_lib (sample_point sid tag) = ''2024-05-01 12:00:00'' @ sid @ ''21.5C''"
  by (simp add: checksum_data_def dt_str_noon sample_defs)

text \<open>
  C2, as amended. \<open>validate(secret)\<close> returns true if and only if the reading's checksum
  equals the HMAC under the secret of timestamp, value, unit and sensor\_id, rendered as
  strings and concatenated in that order; and when a reading validates, a reading with
  the same checksum whose fields give another tag does not.
\<close>

theorem validate_iff_tag:
  assumes "hexdigest_ascii L"
  shows "(validate_true L key r \<longleftrightarrow>
            checksum r = hmac_hexdigest L key
              (dt_str (timestamp r) @ float_str L (val r) @ unit r @ sensor_id r))
       \<and> (\<forall>r'. validate_true L key r \<and> checksum r' = checksum r
              \<and> hmac_hexdigest L key (validate_data L r') \<noteq> hmac_hexdigest L key (validate_data L r)
            \<longrightarrow> \<not> validate_true L key r')"
  using assms
  by (auto simp: validate_true_iff compare_digest_true hexdigest_ascii_def validate_data_def)

theorem validate_iff_tag_witness:
  "hexdigest_ascii sample_lib
   \<and> validate_true sample_lib ''k3y'' (sample_reading ''s1'' tag_tvus)
   \<and> checksum (sample_reading ''s3'' tag_tvus) = checksum (sample_reading ''s1'' tag_tvus)
   \<and> hmac_hexdigest sample_lib ''k3y'' (validate_data sample_lib (sample_reading ''s3'' tag_tvus))
       \<noteq> hmac_hexdigest sample_lib ''k3y'' (validate_data sample_lib (sample_reading ''s1'' tag_tvus))
   \<and> \<not> validate_true sample_lib ''k3y'' (sample_reading ''s3'' tag_tvus)"
proof -
  have t: "validate_true sample_lib ''k3y'' (sample_reading ''s1'' tag_tvus)"
    by (simp add: validate_true_iff validate_data_sample compare_digest_def ascii_only_def)
      (simp add: sample_defs)
  have c: "checksum (sample_reading ''s3'' tag_tvus) = checksum (sample_reading ''s1'' tag_tvus)"
    by (simp add: sample_reading_def)
  have d: "hmac_hexdigest sample_lib ''k3y'' (validate_data sample_lib (sample_reading ''s3'' tag_tvus))
       \<noteq> hmac_hexdigest sample_lib ''k3y'' (validate_data sample_lib (sample_reading ''s1'' tag_tvus))"
    by (simp add: validate_data_sample) (simp add: sample_lib_def sample_hmac_def)
  from validate_iff_tag [OF hexdigest_ascii_sample, of "''k3y''" "sample_reading ''s1'' tag_tvus"]
  have "\<not> validate_true sample_lib ''k3y'' (sample_reading ''s3'' tag_tvus)"
    using t c d by blast
  with t c d hexdigest_ascii_sample show ?thesis by blast
qed

text \<open>The claim's order (timestamp, sensor\_id, value, unit) is not the one \<open>validate\<close>
  hashes: a reading tagged in that order does not validate.\<close>

theorem validate_claimed_order_counterexample:
  "checksum (sample_reading ''s1'' tag_tsvu)
     = hmac_hexdigest sample_lib ''k3y''
         (dt_str (timestamp (sample_reading ''s1'' tag_tsvu))
          @ sensor_id (sample_reading ''s1'' tag_tsvu)
          @ float_str sample_lib (val (sample_reading ''s1'' tag_tsvu))
          @ unit (sample_reading ''s1'' tag_tsvu))
   \<and> \<not> validate_true sample_lib ''k3y'' (sample_reading ''s1'' tag_tsvu)"
proof -
  have "\<not> validate_true sample_lib ''k3y'' (sample_reading ''s1'' tag_tsvu)"
    by (simp add: validate_true_iff validate_data_sample compare_digest_def)
      (simp add: sample_defs)
  moreover have "checksum (sample_reading ''s1'' tag_tsvu)
     = hmac_hexdigest sample_lib ''k3y''
         (dt_str (timestamp (sample_reading ''s1'' tag_tsvu))
          @ sensor_id (sample_reading ''s1'' tag_tsvu)
          @ float_str sample_lib (val (sample_reading ''s1'' tag_tsvu))
          @ unit (sample_reading ''s1'' tag_tsvu))"
    by (simp add: sample_reading_def dt_str_noon) (simp add: sample_defs)
  ultimately show ?thesis by blast
qed

lemma verify_checksum_eq:
  "verify_checksum L key dp =
     compare_digest (hmac_hexdigest L key (checksum_data L dp)) (dp_checksum dp)"
  by (simp add: verify_checksum_def Let_def)




subsection \<open>The stored rows\<close>

lemma verify_rows_intact: "fst (verify_rows L S rs) \<longleftrightarrow> list_all (row_intact L S) rs"
  by (induction rs) (auto simp: row_intact_def Let_def split: sum.splits)

lemma verify_data_integrity_iff:
  "fst (verify_data_integrity L S) \<longleftrightarrow> list_all (row_intact L S) (sensor_data S)"
  by (simp add: verify_data_integrity_def verify_rows_intact list_all_iff)

text \<open>A row whose value column or tag has been changed so that it no longer passes
  makes the audit fail.\<close>

lemma tampered_row_fails_audit:
  "r \<in> set (sensor_data S) \<Longrightarrow> \<not> row_intact L S r \<Longrightarrow> \<not> fst (verify_data_integrity L S)"
  by (auto simp: verify_data_integrity_iff list_all_iff)

lemma damaged_value_not_intact: "encrypted_value r = Damaged x \<Longrightarrow> \<not> row_intact L S r"
  by (simp add: row_intact_def fernet_decrypt_def)

text \<open>What \<open>store_data_point\<close> does when it accepts.\<close>

lemma store_data_point_True:
  assumes "store_data_point L S dp = (True, S')"
  shows "\<exists>j. S' = S\<lparr>sensor_data := sensor_data S @
             [\<lparr>row_timestamp = isoformat (dp_timestamp dp), row_sensor_id = dp_sensor_id dp,
               encrypted_value = fernet_encrypt (st_encryption S) (float_str L (dp_value dp)),
               row_unit = dp_unit dp,
               encrypted_metadata = fernet_encrypt (st_encryption S) j,
               row_checksum = dp_checksum dp\<rparr>]\<rparr>
           \<and> dp_checksum dp = hmac_hexdigest L (st_secret_key S) (checksum_data L dp)"
  using assms
  by (auto simp: store_data_point_def verify_checksum_eq compare_digest_def Let_def
      split: sum.splits if_splits option.splits)

text \<open>
  The row of an accepted data point holds the timestamp as \<open>isoformat()\<close> writes it, and the
  accepted tag was computed over \<open>str(timestamp)\<close>: unless the two messages have the same
  HMAC, the audit that follows fails.
\<close>

lemma accepted_point_fails_audit:
  assumes "store_data_point L S dp = (True, S')"
    and "hmac_hexdigest L (st_secret_key S)
           (isoformat (dp_timestamp dp) @ dp_sensor_id dp @ float_str L (dp_value dp) @ dp_unit dp)
         \<noteq> hmac_hexdigest L (st_secret_key S)
           (dt_str (dp_timestamp dp) @ dp_sensor_id dp @ float_str L (dp_value dp) @ dp_unit dp)"
  shows "\<not> fst (verify_data_integrity L S')"
proof -
  from store_data_point_True [OF assms(1)] obtain j where
    S': "S' = S\<lparr>sensor_data := sensor_data S @
             [\<lparr>row_timestamp = isoformat (dp_timestamp dp), row_sensor_id = dp_sensor_id dp,
               encrypted_value = fernet_encrypt (st_encryption S) (float_str L (dp_value dp)),
               row_unit = dp_unit dp,
               encrypted_metadata = fernet_encrypt (st_encryption S) j,
               row_checksum = dp_checksum dp\<rparr>]\<rparr>"
    and tag: "dp_checksum dp = hmac_hexdigest L (st_secret_key S) (checksum_data L dp)"
    by blast
  show ?thesis
    using assms(2)
    by (simp add: verify_data_integrity_iff S' row_intact_def fernet_encrypt_def
        fernet_decrypt_def integrity_data_def tag checksum_data_def compare_digest_def)
qed

text \<open>
  C1 at a data point with a correct tag. \<open>store_data_point\<close> accepts and stores it, and
  \<open>verify_data_integrity\<close> over the untouched store returns false, reporting the row just
  written.
\<close>

theorem store_then_verify_fails:
  "fst (store_data_point sample_lib empty_storage (sample_point ''s1'' tag_tsvu))
   \<and> verify_data_integrity sample_lib
        (snd (store_data_point sample_lib empty_storage (sample_point ''s1'' tag_tsvu)))
      = (False, [LogError ''Data integrity violation found at 2024-05-01T12:00:00''])"
proof -
  have v: "verify_checksum sample_lib ''k3y'' (sample_point ''s1'' tag_tsvu) = Inr True"
    by (simp add: verify_checksum_eq checksum_data_sample compare_digest_def ascii_only_def)
      (simp add: sample_defs)
  have s: "store_data_point sample_lib empty_storage (sample_point ''s1'' tag_tsvu)
      = (True, empty_storage\<lparr>sensor_data :=
          [\<lparr>row_timestamp = ''2024-05-01T12:00:00'', row_sensor_id = ''s1'',
            encrypted_value = Token ''f3rn3t'' ''21.5'', row_unit = ''C'',
            encrypted_metadata = Token ''f3rn3t'' ''{}'', row_checksum = tag_tsvu\<rparr>]\<rparr>)"
    by (simp add: store_data_point_def empty_storage_def v)
      (simp add: fernet_encrypt_def sample_lib_def sample_point_def sample_float_str_def
        isoformat_noon)
  show ?thesis
    unfolding s
    by (simp add: verify_data_integrity_def empty_storage_def fernet_decrypt_def
        integrity_data_def compare_digest_def ascii_only_def Let_def)
      (simp add: sample_defs)
qed

subsection \<open>Reading the rows back\<close>

lemma decrypt_rows_fails:
  "r \<in> set rs \<Longrightarrow> decrypt_data_point L S r = Inl e \<Longrightarrow> \<exists>e'. decrypt_rows L S rs = Inl e'"
  by (induction rs) (auto split: sum.splits)

text \<open>
  C10, as amended. When decryption of a row that matches the query fails,
  \<open>_decrypt_data_point\<close> raises, and \<open>get_data_points\<close> catches the exception and returns
  the empty list: no error reaches the caller.
\<close>

theorem get_data_points_swallows:
  assumes "r \<in> set (select_rows S sid start_time end_time)"
    and "decrypt_data_point L S r = Inl e"
  shows "get_data_points L S sid start_time end_time = Inr []"
proof -
  from decrypt_rows_fails [OF assms] obtain e' where
    "decrypt_rows L S (select_rows S sid start_time end_time) = Inl e'" ..
  then show ?thesis by (simp add: get_data_points_def)
qed

lemma select_rows_damaged: "select_rows damaged_storage ''s1'' noon noon = [damaged_row]"
  by (simp add: select_rows_def damaged_storage_def damaged_row_def empty_storage_def
      isoformat_noon)

lemma decrypt_damaged_row:
  "decrypt_data_point sample_lib damaged_storage damaged_row = Inl InvalidToken"
  by (simp add: decrypt_data_point_def damaged_row_def fernet_decrypt_def)

theorem get_data_points_swallows_witness:
  "damaged_row \<in> set (select_rows damaged_storage ''s1'' noon noon)
   \<and> decrypt_data_point sample_lib damaged_storage damaged_row = Inl InvalidToken
   \<and> get_data_points sample_lib damaged_storage ''s1'' noon noon = Inr []"
proof -
  have m: "damaged_row \<in> set (select_rows damaged_storage ''s1'' noon noon)"
    by (simp add: select_rows_damaged)
  from get_data_points_swallows [OF m decrypt_damaged_row] m decrypt_damaged_row
  show ?thesis by simp
qed

text \<open>The failure is not propagated: the call returns normally.\<close>

theorem get_data_points_no_error_counterexample:
  "decrypt_data_point sample_lib damaged_storage damaged_row = Inl InvalidToken
   \<and> select_rows damaged_storage ''s1'' noon noon = [damaged_row]
   \<and> get_data_points sample_lib damaged_storage ''s1'' noon noon \<noteq> Inl InvalidToken
   \<and> get_data_points sample_lib damaged_storage ''s1'' noon noon = Inr []"
  by (simp add: get_data_points_def select_rows_damaged decrypt_damaged_row)

subsection \<open>The bounded buffer\<close>

lemma length_deque_append: "length xs \<le> n \<Longrightarrow> length (deque_append n xs x) \<le> n"
  by (auto simp: deque_append_def Let_def)

lemma deque_append_at_cap: "length xs = n \<Longrightarrow> deque_append n xs x = tl (xs @ [x])"
  by (simp add: deque_append_def Let_def)

lemma foldl_deque_append_fits:
  "length (acc @ xs) \<le> n \<Longrightarrow> foldl (deque_append n) acc xs = acc @ xs"
  by (induction xs arbitrary: acc) (auto simp: deque_append_def Let_def)

lemma deque_of_fits: "length xs \<le> n \<Longrightarrow> deque_of n xs = xs"
  using foldl_deque_append_fits [of "[]" xs n] by (simp add: deque_of_def)

lemma length_filter_fits: "length xs \<le> n \<Longrightarrow> length (filter P xs) \<le> n"
  using length_filter_le [of P xs] by linarith

text \<open>When no comparison raises, the comprehension is a filter.\<close>

lemma newer_than_Inr:
  "newer_than now cutoff rs = Inr ys
   \<Longrightarrow> ys = filter (\<lambda>r. cutoff < dt_micros (timestamp r)) rs"
  by (induction rs arbitrary: ys) (auto simp: later_than_def split: sum.splits if_splits)

lemma newer_than_naive:
  "naive now \<Longrightarrow> \<forall>r\<in>set rs. naive (timestamp r)
   \<Longrightarrow> newer_than now cutoff rs = Inr (filter (\<lambda>r. cutoff < dt_micros (timestamp r)) rs)"
  by (induction rs) (auto simp: later_than_def)

text \<open>A reading with an aware timestamp makes the comparison with a naive cutoff raise.\<close>

lemma newer_than_aware:
  "naive now \<Longrightarrow> r \<in> set rs \<Longrightarrow> \<not> naive (timestamp r)
   \<Longrightarrow> newer_than now cutoff rs = Inl TypeError"
  by (induction rs) (auto simp: later_than_def split: sum.splits)

lemma cleanup_if_needed_maxlen [simp]:
  "maxlen (snd (cleanup_if_needed b n1 n2 n3)) = maxlen b"
  by (simp add: cleanup_if_needed_def Let_def split: sum.splits)

lemma cleanup_if_needed_length:
  "length (buffer b) \<le> maxlen b
   \<Longrightarrow> length (buffer (snd (cleanup_if_needed b n1 n2 n3))) \<le> maxlen b"
  by (auto simp: cleanup_if_needed_def Let_def deque_of_fits length_filter_fits
      split: sum.splits dest!: newer_than_Inr)

lemma add_maxlen [simp]: "maxlen (snd (add b r n1 n2 n3)) = maxlen b"
  by (simp add: add_def)

lemma add_length:
  "length (buffer b) \<le> maxlen b \<Longrightarrow> length (buffer (snd (add b r n1 n2 n3))) \<le> maxlen b"
  using cleanup_if_needed_length
    [of "b\<lparr>buffer := deque_append (maxlen b) (buffer b) r\<rparr>" n1 n2 n3]
  by (simp add: add_def length_deque_append)

lemma add_all_invariant:
  "length (buffer b) \<le> maxlen b
   \<Longrightarrow> length (buffer (add_all b calls)) \<le> maxlen b \<and> maxlen (add_all b calls) = maxlen b"
proof (induction calls arbitrary: b)
  case Nil
  then show ?case by simp
next
  case (Cons c calls)
  obtain r n1 n2 n3 where c: "c = (r, n1, n2, n3)" by (cases c) auto
  have "length (buffer (snd (add b r n1 n2 n3))) \<le> maxlen (snd (add b r n1 n2 n3))"
    using Cons.prems by (simp add: add_length)
  from Cons.IH [OF this] show ?case by (simp add: c)
qed

text \<open>What an \<open>add\<close> at the cap leaves: the old entries and the new one without the
  oldest, and of these the ones a cleanup keeps.\<close>

lemma add_at_cap:
  assumes "length (buffer b) = maxlen b"
  shows "buffer (snd (add b r n1 n2 n3)) = tl (buffer b @ [r])
       \<or> (\<exists>cutoff. buffer (snd (add b r n1 n2 n3))
             = filter (\<lambda>x. cutoff < dt_micros (timestamp x)) (tl (buffer b @ [r])))"
proof -
  have len: "length (tl (buffer b @ [r])) \<le> maxlen b"
    using assms by simp
  show ?thesis
    using assms len
    by (auto simp: add_def cleanup_if_needed_def Let_def deque_append_at_cap deque_of_fits
        length_filter_fits split: sum.splits dest!: newer_than_Inr)
qed

text \<open>
  C4. A buffer constructed with the maximum count \<open>N\<close> holds at most \<open>N\<close> readings after
  any sequence of \<open>add\<close> calls, whatever the clock, cleanups and exceptions in between; and
  an \<open>add\<close> at the cap evicts the oldest entry.
\<close>

theorem buffer_never_exceeds_max:
  assumes "new_RealTimeBuffer N interval t0 = Inr b0"
  shows "length (buffer (add_all b0 calls)) \<le> nat N
       \<and> (length (buffer (add_all b0 calls)) = nat N \<longrightarrow>
            buffer (snd (add (add_all b0 calls) r n1 n2 n3)) = tl (buffer (add_all b0 calls) @ [r])
            \<or> (\<exists>cutoff. buffer (snd (add (add_all b0 calls) r n1 n2 n3))
                  = filter (\<lambda>x. cutoff < dt_micros (timestamp x))
                      (tl (buffer (add_all b0 calls) @ [r]))))"
proof -
  from assms have b0: "buffer b0 = []" "maxlen b0 = nat N"
    by (auto simp: new_RealTimeBuffer_def split: if_splits)
  then have inv: "length (buffer (add_all b0 calls)) \<le> maxlen b0"
    "maxlen (add_all b0 calls) = maxlen b0"
    using add_all_invariant [of b0 calls] by simp_all
  show ?thesis
    using inv b0 add_at_cap [of "add_all b0 calls" r n1 n2 n3] by auto
qed

lemmas time_defs = dt_micros_def wall_micros_def utcoffset_def toordinal_def
  days_before_year_def days_before_month_def days_in_month_def is_leap_def dt_diff_def
  td_seconds_def timedelta_days_def dt_minus_def dt_limit_def

lemma naive_samples [simp]: "naive noon" "naive next_day" "naive a_month_before"
  by (simp_all add: naive_def noon_def next_day_def a_month_before_def)

lemma utcoffset_naive: "naive d \<Longrightarrow> utcoffset d = 0"
  by (simp add: naive_def utcoffset_def)

lemma wall_micros_naive: "naive d \<Longrightarrow> wall_micros d = dt_micros d"
  by (simp add: dt_micros_def utcoffset_naive)

lemma naive_reading_at [simp]: "naive (timestamp (reading_at t v)) = naive t"
  by (simp add: reading_at_def)

lemma dt_micros_noon: "dt_micros noon = 63850161600000000"
  by (simp add: time_defs noon_def Let_def)

lemma dt_micros_next_day: "dt_micros next_day = 63850248010000000"
  by (simp add: time_defs next_day_def Let_def)

lemma dt_micros_a_month_before: "dt_micros a_month_before = 63847569600000000"
  by (simp add: time_defs a_month_before_def Let_def)

theorem buffer_never_exceeds_max_witness:
  "new_RealTimeBuffer 2 3600 noon = Inr small_buffer
   \<and> length (buffer (add_all small_buffer two_calls)) = nat 2
   \<and> buffer (snd (add (add_all small_buffer two_calls) (reading_at noon 3) noon noon noon))
       = tl (buffer (add_all small_buffer two_calls) @ [reading_at noon 3])
   \<and> buffer (snd (add (add_all small_buffer two_calls) (reading_at noon 3) noon noon noon))
       = [reading_at noon 2, reading_at noon 3]"
proof -
  have i: "new_RealTimeBuffer 2 3600 noon = Inr small_buffer"
    by (simp add: new_RealTimeBuffer_def small_buffer_def)
  have a: "add_all small_buffer two_calls
      = small_buffer\<lparr>buffer := [reading_at noon 1, reading_at noon 2]\<rparr>"
    by (simp add: two_calls_def small_buffer_def add_def cleanup_if_needed_def deque_append_def
        dt_sub_def dt_diff_def td_seconds_def)
  have b: "buffer (snd (add (small_buffer\<lparr>buffer := [reading_at noon 1, reading_at noon 2]\<rparr>)
             (reading_at noon 3) noon noon noon))
      = [reading_at noon 2, reading_at noon 3]"
    by (simp add: small_buffer_def add_def cleanup_if_needed_def deque_append_def
        dt_sub_def dt_diff_def td_seconds_def)
  from buffer_never_exceeds_max [OF i, of two_calls "reading_at noon 3" noon noon noon]
  have "length (buffer (add_all small_buffer two_calls)) \<le> nat 2" by blast
  then show ?thesis using i by (simp add: a b)
qed

subsection \<open>The cleanup timer\<close>

lemma td_seconds_within_a_day:
  "0 \<le> td \<Longrightarrow> td < 86400 * 1000000 \<Longrightarrow> td_seconds td = td div 1000000"
  by (simp add: td_seconds_def div_less_iff_less_mult zdiv_eq_0_iff pos_imp_zdiv_nonneg_iff)

text \<open>When the test on \<open>.seconds\<close> passes, the cleanup does what C5 describes.\<close>

lemma add_when_cleanup_runs:
  assumes "dt_sub n1 (last_cleanup b) = Inr elapsed"
    and "td_seconds elapsed > cleanup_interval b"
    and "dt_minus n3 (timedelta_days 7) = Inr cutoff"
    and "naive n3" and "\<forall>x\<in>set (buffer b @ [r]). naive (timestamp x)"
    and "length (buffer b) < maxlen b"
  shows "add b r n1 n2 n3 =
           (None, b\<lparr>buffer := filter (\<lambda>x. cutoff < dt_micros (timestamp x)) (buffer b @ [r]),
                    last_cleanup := n2\<rparr>)"
proof -
  have "length (filter (\<lambda>x. cutoff < dt_micros (timestamp x)) (buffer b @ [r])) \<le> maxlen b"
    using assms(6) by (intro length_filter_fits) simp
  moreover have "newer_than n3 cutoff (buffer b @ [r])
      = Inr (filter (\<lambda>x. cutoff < dt_micros (timestamp x)) (buffer b @ [r]))"
    using assms(4,5) by (rule newer_than_naive)
  ultimately show ?thesis
    using assms(1,2,3,6)
    by (simp add: add_def cleanup_if_needed_def Let_def deque_append_def deque_of_fits)
qed

text \<open>
  C5 at a buffer last cleaned at noon, 86410 seconds before the call. More than the
  cleanup interval of 3600 seconds has elapsed and the buffer holds a reading a month
  old, yet \<open>add\<close> evicts nothing and leaves the timer at noon: the \<open>seconds\<close> field of the
  elapsed time is 10.
\<close>

theorem cleanup_skipped_after_a_day:
  "dt_diff next_day (last_cleanup stale_buffer) = 86410 * 1000000
   \<and> cleanup_interval stale_buffer = 3600
   \<and> dt_micros a_month_before < dt_micros next_day - timedelta_days 7
   \<and> add stale_buffer (reading_at next_day 21) next_day next_day next_day
       = (None, stale_buffer\<lparr>buffer := [reading_at a_month_before 20, reading_at next_day 21]\<rparr>)"
  by (simp add: stale_buffer_def dt_sub_def dt_diff_def dt_micros_noon dt_micros_next_day
      dt_micros_a_month_before timedelta_days_def add_def cleanup_if_needed_def deque_append_def
      td_seconds_def)

subsection \<open>Statistics of a sensor\<close>

lemma get_recent_in_range:
  assumes "naive now" and "\<forall>r\<in>set (buffer b). naive (timestamp r)"
    and "- 999999999 \<le> timeframe div 86400" and "timeframe div 86400 \<le> 999999999"
    and "0 \<le> dt_micros now - timeframe * 1000000"
    and "dt_micros now - timeframe * 1000000 < dt_limit"
  shows "get_recent b timeframe now =
           Inr (filter (\<lambda>r. dt_micros (timestamp r) > dt_micros now - timeframe * 1000000)
                  (buffer b))"
  using assms(3-6) newer_than_naive [OF assms(1,2)]
  by (simp add: get_recent_def timedelta_of_seconds_def dt_minus_def Let_def
      wall_micros_naive [OF assms(1)] utcoffset_naive [OF assms(1)])

text \<open>
  C6, as amended. For a sensor\_id that has a buffer whose readings have naive
  timestamps, and a timeframe for which \<open>now - timedelta(seconds=timeframe)\<close> is a
  datetime, \<open>get_statistics\<close> returns a statistics dictionary or the empty dict, never an
  error, and the empty dict exactly when no reading falls in the window. (The clock
  reading \<open>now\<close> is naive, as every \<open>datetime.now()\<close> is.)
\<close>

theorem get_statistics_known_sensor:
  assumes "buffers M sid = Some b"
    and "naive now" and "\<forall>r\<in>set (buffer b). naive (timestamp r)"
    and "- 999999999 \<le> timeframe div 86400" and "timeframe div 86400 \<le> 999999999"
    and "0 \<le> dt_micros now - timeframe * 1000000"
    and "dt_micros now - timeframe * 1000000 < dt_limit"
  shows "\<exists>res. get_statistics M sid timeframe now = Inr res
           \<and> ((res = None) = (filter (\<lambda>r. dt_micros (timestamp r)
                                   > dt_micros now - timeframe * 1000000) (buffer b) = []))"
  using assms(1) get_recent_in_range [OF assms(2-7)]
  by (simp add: get_statistics_def Let_def)

lemma buffers_monitor_with:
  "buffers (monitor_with rs) ''s1''
     = Some \<lparr>buffer = rs, maxlen = 1000, cleanup_interval = 3600, last_cleanup = noon\<rparr>"
  by (simp add: monitor_with_def new_RealTimeMonitor_def)

theorem get_statistics_known_sensor_witness:
  "buffers (monitor_with [reading_at a_month_before 20]) ''s1''
     = Some \<lparr>buffer = [reading_at a_month_before 20], maxlen = 1000, cleanup_interval = 3600,
             last_cleanup = noon\<rparr>
   \<and> naive noon \<and> naive (timestamp (reading_at a_month_before 20))
   \<and> - 999999999 \<le> (60::int) div 86400 \<and> (60::int) div 86400 \<le> 999999999
   \<and> 0 \<le> dt_micros noon - 60 * 1000000 \<and> dt_micros noon - 60 * 1000000 < dt_limit
   \<and> get_statistics (monitor_with [reading_at a_month_before 20]) ''s1'' 60 noon = Inr None"
proof -
  have r: "- 999999999 \<le> (60::int) div 86400" "(60::int) div 86400 \<le> 999999999"
    "0 \<le> dt_micros noon - 60 * 1000000" "dt_micros noon - 60 * 1000000 < dt_limit"
    by (simp_all add: dt_micros_noon dt_limit_def)
  have n: "naive noon"
    "\<forall>r\<in>set (buffer \<lparr>buffer = [reading_at a_month_before 20], maxlen = 1000,
                         cleanup_interval = 3600, last_cleanup = noon\<rparr>). naive (timestamp r)"
    by simp_all
  have w: "filter (\<lambda>r. dt_micros (timestamp r) > dt_micros noon - 60 * 1000000)
             (buffer \<lparr>buffer = [reading_at a_month_before 20], maxlen = 1000,
                      cleanup_interval = 3600, last_cleanup = noon\<rparr>) = []"
    by (simp add: dt_micros_noon dt_micros_a_month_before reading_at_def)
  from get_statistics_known_sensor
    [OF buffers_monitor_with [of "[reading_at a_month_before 20]"] n r]
  have "get_statistics (monitor_with [reading_at a_month_before 20]) ''s1'' 60 noon = Inr None"
    unfolding w by auto
  with r buffers_monitor_with show ?thesis by simp
qed

text \<open>A buffered reading whose timestamp carries an offset makes the query raise: the
  comparison of its timestamp with the naive cutoff is a TypeError.\<close>

lemma get_statistics_aware_reading:
  "get_statistics (monitor_with [reading_at noon_utc 20]) ''s1'' 60 noon = Inl TypeError"
proof -
  have a: "\<not> naive (timestamp (reading_at noon_utc 20))"
    by (simp add: naive_def noon_utc_def reading_at_def)
  have "newer_than noon c [reading_at noon_utc 20] = Inl TypeError" for c
    using newer_than_aware [OF naive_samples(1) _ a, of "[reading_at noon_utc 20]" c] by simp
  then show ?thesis
    by (simp add: get_statistics_def buffers_monitor_with get_recent_def
        timedelta_of_seconds_def dt_minus_def Let_def wall_micros_naive dt_micros_noon
        dt_limit_def)
qed

text \<open>A sensor that has sent no reading has no buffer, and the lookup raises.\<close>

theorem get_statistics_unknown_sensor_counterexample:
  "get_statistics (new_RealTimeMonitor ''f3rn3t'' ''k3y'') ''s1'' 60 noon = Inl (KeyError ''s1'')"
  by (simp add: get_statistics_def new_RealTimeMonitor_def)


text \<open>The readings 10, 20, 30 of the last day: mean 20, minimum 10, maximum 30, median 20.\<close>

lemma get_statistics_10_20_30:
  "\<exists>s. get_statistics (monitor_with [reading_at noon 10, reading_at noon 20, reading_at noon 30])
          ''s1'' 86460 next_day = Inr (Some s)
       \<and> st_mean s = 20 \<and> st_min s = 10 \<and> st_max s = 30 \<and> st_median s = 20 \<and> st_count s = 3"
  by (simp add: get_statistics_def buffers_monitor_with get_recent_def timedelta_of_seconds_def
      dt_minus_def wall_micros_naive utcoffset_naive later_than_def dt_micros_noon
      dt_micros_next_day dt_limit_def np_mean_def np_min_def np_max_def np_median_def)
    (simp add: reading_at_def dt_micros_noon)

subsection \<open>The trend of a constant series\<close>

lemma sum_list_const: "\<forall>x\<in>set xs. x = c \<Longrightarrow> sum_list xs = real (length xs) * (c::real)"
  by (induction xs) (auto simp: algebra_simps)

lemma np_mean_const: "xs \<noteq> [] \<Longrightarrow> \<forall>x\<in>set xs. x = c \<Longrightarrow> np_mean xs = c"
  by (simp add: np_mean_def sum_list_const)

lemma sum_list_zero: "\<forall>x\<in>set xs. x = 0 \<Longrightarrow> sum_list xs = (0::real)"
  by (induction xs) auto

lemma sum_co_dev_const:
  assumes "vs \<noteq> []" and "\<forall>v\<in>set vs. v = c"
  shows "sum_co_dev ts vs = 0"
proof -
  have m: "np_mean vs = c" using assms by (rule np_mean_const)
  have "\<forall>x\<in>set (map2 (\<lambda>x y. (x - np_mean ts) * (y - np_mean vs)) ts vs). x = 0"
    using assms(2) by (auto simp: m dest: set_zip_rightD)
  then show ?thesis unfolding sum_co_dev_def by (rule sum_list_zero)
qed

text \<open>
  In exact arithmetic a constant series has slope 0, and it is classified as stable when
  its value is not zero (and the readings are not all of one instant).
\<close>

lemma constant_series_stable:
  assumes "buffers M sid = Some b" and "get_recent b timeframe now = Inr readings"
    and "2 \<le> length readings" and "\<forall>r\<in>set readings. val r = c" and "c \<noteq> 0"
    and "seconds_since (timestamp (hd readings)) readings = Inr elapsed"
    and "sum_sq_dev elapsed \<noteq> 0"
  shows "\<exists>ta. get_trend_analysis M sid timeframe now = Inr (Some ta)
           \<and> trend ta = ''stable'' \<and> slope ta = 0 \<and> trend_strength ta = Finite 0"
proof -
  have ne: "map val readings \<noteq> []" using assms(3) by auto
  have all: "\<forall>v\<in>set (map val readings). v = c" using assms(4) by auto
  have m: "np_mean (map val readings) = c" using ne all by (rule np_mean_const)
  have z: "sum_co_dev ts (map val readings) = 0" for ts using ne all by (rule sum_co_dev_const)
  show ?thesis
    using assms(1,2,3,5,6,7)
    by (simp add: get_trend_analysis_def Let_def polyfit_slope_def z m np_div_def np_less_def)
qed

text \<open>
  C7 at two readings of value 0.0, a day apart. The slope is 0 and so is the mean: the
  trend strength is \<open>0 / 0\<close>, which is nan, the test \<open>trend_strength < 0.1\<close> is false and the
  constant series is classified as decreasing.
\<close>

theorem constant_zero_series_decreasing:
  "get_trend_analysis (monitor_with [reading_at noon 0, reading_at next_day 0]) ''s1''
     172800 next_day
   = Inr (Some \<lparr>trend = ''decreasing'', trend_strength = NaN, slope = 0, r_squared = NaN\<rparr>)"
proof -
  have r: "get_recent \<lparr>buffer = [reading_at noon 0, reading_at next_day 0], maxlen = 1000,
             cleanup_interval = 3600, last_cleanup = noon\<rparr> 172800 next_day
      = Inr [reading_at noon 0, reading_at next_day 0]"
    by (simp add: get_recent_def timedelta_of_seconds_def dt_minus_def wall_micros_naive
        utcoffset_naive later_than_def dt_micros_noon dt_micros_next_day dt_limit_def)
      (simp add: reading_at_def dt_micros_noon dt_micros_next_day)
  have t: "seconds_since (timestamp (reading_at noon 0))
             [reading_at noon 0, reading_at next_day 0] = Inr [0, 86410]"
    by (simp add: reading_at_def dt_sub_def dt_diff_def dt_micros_noon dt_micros_next_day
        td_total_seconds_def)
  have v: "map val [reading_at noon 0, reading_at next_day 0] = [0, 0]"
    by (simp add: reading_at_def)
  show ?thesis
    by (simp add: get_trend_analysis_def buffers_monitor_with r t v Let_def
        del: seconds_since.simps list.map)
      (simp add: polyfit_slope_def sum_sq_dev_def sum_co_dev_def np_mean_def np_div_def
        np_less_def corrcoef_squared_def)
qed

subsection \<open>The health check\<close>

lemma process_reading_attrs:
  "mon_last_cleanup (snd (process_reading M r now)) = mon_last_cleanup M
   \<and> mon_start_time (snd (process_reading M r now)) = mon_start_time M"
  by (simp add: process_reading_def Let_def split: prod.splits)

lemma stop_attrs:
  "mon_last_cleanup (stop M) = mon_last_cleanup M \<and> mon_start_time (stop M) = mon_start_time M"
  by (simp add: stop_def)

lemma process_reading_attrs_eq:
  assumes "process_reading M r now = (e, M')"
  shows "mon_last_cleanup M' = mon_last_cleanup M" and "mon_start_time M' = mon_start_time M"
  using process_reading_attrs [of M r now] assms by simp_all

lemma loop_body_attrs:
  "mon_last_cleanup (fst (loop_body L M)) = mon_last_cleanup M
   \<and> mon_start_time (fst (loop_body L M)) = mon_start_time M"
  by (auto simp: loop_body_def Let_def stop_attrs
      split: option.splits list.splits net_event.splits sum.splits prod.splits
      dest: process_reading_attrs_eq)

lemma monitor_loop_attrs:
  "mon_last_cleanup (fst (monitor_loop L n (M, tr))) = mon_last_cleanup M
   \<and> mon_start_time (fst (monitor_loop L n (M, tr))) = mon_start_time M"
proof (induction n arbitrary: M tr)
  case 0
  then show ?case by simp
next
  case (Suc n)
  obtain M' acts where b: "loop_body L M = (M', acts)" by (cases "loop_body L M") auto
  with loop_body_attrs [of L M] Suc.IH [of M' "tr @ acts"] show ?case by simp
qed

lemma start_attrs:
  "mon_last_cleanup (fst (snd (start L n M c))) = mon_last_cleanup M
   \<and> mon_start_time (fst (snd (start L n M c))) = mon_start_time M"
proof (cases c)
  case (Inl e)
  then show ?thesis by (simp add: start_def)
next
  case (Inr ws)
  obtain M2 tr where l:
    "monitor_loop L n (M\<lparr>is_running := True, websocket := Some ws\<rparr>, [Connect]) = (M2, tr)"
    by (cases "monitor_loop L n (M\<lparr>is_running := True, websocket := Some ws\<rparr>, [Connect])") auto
  with monitor_loop_attrs [of L n "M\<lparr>is_running := True, websocket := Some ws\<rparr>" "[Connect]"]
  show ?thesis by (simp add: start_def Inr)
qed

text \<open>No method creates the two attributes: the health check fails in every state of
  the monitor.\<close>

lemma reachable_attrs: "reachable L M \<Longrightarrow> mon_last_cleanup M = None \<and> mon_start_time M = None"
proof (induction rule: reachable.induct)
  case (r_init encryption_key secret)
  then show ?case by (simp add: new_RealTimeMonitor_def)
next
  case (r_start M n connection)
  then show ?case by (simp add: start_attrs)
next
  case (r_stop M)
  then show ?case by (simp add: stop_attrs)
next
  case (r_callback M callback)
  then show ?case by (simp add: add_alert_callback_def)
next
  case (r_process M reading now)
  then show ?case by (simp add: process_reading_attrs)
qed

lemma health_check_always_fails:
  "reachable L M \<Longrightarrow> get_health_check M now = Inl (AttributeError ''last_cleanup'')"
  by (drule reachable_attrs) (simp add: get_health_check_def)

text \<open>With both attributes present the dictionary is returned.\<close>

lemma health_check_with_attrs:
  "mon_last_cleanup M = Some lc \<Longrightarrow> mon_start_time M = Some st \<Longrightarrow> naive now \<Longrightarrow> naive st
   \<Longrightarrow> \<exists>h. get_health_check M now = Inr h
          \<and> hc_status h = (if is_running M then ''healthy'' else ''stopped'')"
  by (simp add: get_health_check_def dt_sub_def)

text \<open>
  C8 at a monitor that has been started and awaits its first frame: it is running, and
  \<open>get_health_check\<close> raises AttributeError at \<open>self.last_cleanup\<close>.
\<close>

theorem health_check_fails_while_running:
  "is_running (fst (snd (start sample_lib 1 (new_RealTimeMonitor ''f3rn3t'' ''k3y'')
       (Inr \<lparr>ws_closed = False, ws_feed = []\<rparr>))))
   \<and> get_health_check (fst (snd (start sample_lib 1 (new_RealTimeMonitor ''f3rn3t'' ''k3y'')
       (Inr \<lparr>ws_closed = False, ws_feed = []\<rparr>)))) next_day
       = Inl (AttributeError ''last_cleanup'')"
  by (simp add: start_def new_RealTimeMonitor_def awaiting_def get_health_check_def)

subsection \<open>The loop after a connection loss\<close>

lemma closed_socket_never_recovers:
  assumes "websocket M = Some ws" and "ws_closed ws" and "is_running M"
  shows "monitor_loop L n (M, tr) = (M, tr @ concat (replicate n on_connection_closed))"
  using assms
proof (induction n arbitrary: tr)
  case 0
  then show ?case by simp
next
  case (Suc n)
  have b: "loop_body L M = (M, on_connection_closed)"
    using Suc.prems by (simp add: loop_body_def)
  have a: "\<not> awaiting M" using Suc.prems by (simp add: awaiting_def)
  have r: "concat (replicate n on_connection_closed) @ on_connection_closed
      = on_connection_closed @ concat (replicate n on_connection_closed)"
    by (induction n) auto
  show ?case
    using Suc.IH [OF Suc.prems, of "tr @ on_connection_closed"] Suc.prems(3) a b
    by (simp add: r)
qed

text \<open>
  C9 at a connection that drops before the first frame. After the loss every pass logs
  and sleeps 5 seconds, then calls \<open>recv()\<close> on the same closed websocket: there is one
  Connect in the trace, the websocket stays closed and the frame that follows the drop
  is never received.
\<close>

theorem no_reconnect_after_drop:
  "start sample_lib 4 (new_RealTimeMonitor ''f3rn3t'' ''k3y'') (Inr dropping_socket)
   = (None,
      (new_RealTimeMonitor ''f3rn3t'' ''k3y'')
        \<lparr>is_running := True,
         websocket := Some \<lparr>ws_closed = True,
           ws_feed = [Frame (Inr (sample_reading ''s1'' tag_tvus)) noon]\<rparr>\<rparr>,
      [Connect,
       LogError ''Connection lost. Attempting to reconnect...'', Sleep 5,
       LogError ''Connection lost. Attempting to reconnect...'', Sleep 5,
       LogError ''Connection lost. Attempting to reconnect...'', Sleep 5,
       LogError ''Connection lost. Attempting to reconnect...'', Sleep 5])"
  by (simp add: start_def new_RealTimeMonitor_def dropping_socket_def awaiting_def loop_body_def
      on_connection_closed_def eval_nat_numeral)

end
